theory Spec2Isabelle
  imports Complex_Main "HOL-Library.Word"
begin

section \<open>Numeric types of the firmware\<close>

text \<open>
  The module is C++ for a 32-bit controller. Its fixed-width integers are words:
  \<open>uint8_t\<close> is \<open>8 word\<close>, \<open>uint16_t\<close> and \<open>int16_t\<close> are \<open>16 word\<close> (read with
  \<open>uint\<close> and \<open>sint\<close> respectively). A \<open>float\<close> is modelled by the real number it
  denotes. Comparisons are exact. A subtraction, a division and a multiplication round
  the exact result to single precision (\<open>round_float\<close> below). Infinities and NaN are
  outside the model. A division whose divisor is zero has no real result and is the value
  \<open>None\<close>.
\<close>

type_synonym float = real
type_synonym uint8_t = "8 word"
type_synonym uint16_t = "16 word"
type_synonym int16_t = "16 word"

text \<open>The cast \<open>int(x)\<close> of a float: the fractional part is discarded (towards zero).\<close>

definition float_to_int :: "float \<Rightarrow> int" where
  "float_to_int x = (if 0 \<le> x then \<lfloor>x\<rfloor> else \<lceil>x\<rceil>)"

text \<open>
  Assigning a float to an unsigned integer field truncates it the same way; C defines the
  result only when the truncated value fits the field, and the model reduces it modulo
  the width otherwise.
\<close>

definition float_to_uint8 :: "float \<Rightarrow> uint8_t" where
  "float_to_uint8 x = word_of_int (float_to_int x)"

definition float_to_uint16 :: "float \<Rightarrow> uint16_t" where
  "float_to_uint16 x = word_of_int (float_to_int x)"

text \<open>Passing a \<open>uint8_t\<close> where a float is expected converts its value exactly.\<close>

definition uint8_to_float :: "uint8_t \<Rightarrow> float" where
  "uint8_to_float w = real_of_int (uint w)"

text \<open>
  Rounding to single precision: to the nearest multiple of the quantum, a tie going to the
  even multiple. The quantum of a magnitude in \<open>[2 ^ (e + 23), 2 ^ (e + 24))\<close> is
  \<open>2 ^ e\<close>, so that the multiple has 24 bits, and it is never less than \<open>2 ^ - 149\<close>.
  \<open>quantum_search\<close> tries the exponents from \<open>n - 149\<close> down to \<open>- 148\<close> and ends with
  \<open>- 149\<close>; from 253 it covers every finite single-precision magnitude. Two ranges are
  outside the model: a magnitude of \<open>2 ^ 128\<close> or more (an infinity in the code) is
  rounded with the quantum \<open>2 ^ 104\<close>, and a magnitude below \<open>2 ^ - 149\<close>, which no
  difference of two floats has (zero or the least float in the code), is left as it is.
\<close>

definition round_half_even :: "real \<Rightarrow> int" where
  "round_half_even y =
     (let f = \<lfloor>y\<rfloor>; d = y - of_int f
      in if d < 1 / 2 then f else if 1 / 2 < d then f + 1 else if even f then f else f + 1)"

fun quantum_search :: "nat \<Rightarrow> real \<Rightarrow> int" where
  "quantum_search 0 a = - 149"
| "quantum_search (Suc n) a =
     (if 2 powi (int (Suc n) - 126) \<le> a then int (Suc n) - 149 else quantum_search n a)"

definition quantum_exp :: "real \<Rightarrow> int" where
  "quantum_exp x = quantum_search 253 \<bar>x\<bar>"

definition round_float :: "real \<Rightarrow> float" where
  "round_float x =
     (if \<bar>x\<bar> < 2 powi (- 149) then x
      else 2 powi quantum_exp x * of_int (round_half_even (x / 2 powi quantum_exp x)))"

definition float_sub :: "float \<Rightarrow> float \<Rightarrow> float" where
  "float_sub a b = round_float (a - b)"

definition float_mul :: "float \<Rightarrow> float \<Rightarrow> float" where
  "float_mul a b = round_float (a * b)"

definition float_div :: "float \<Rightarrow> float \<Rightarrow> float option" where
  "float_div a b = (if b = 0 then None else Some (round_float (a / b)))"

text \<open>
  An \<open>int\<close> used as a float converts exactly as long as its magnitude is at most
  \<open>2 ^ 24\<close>; the ones that occur here are differences and sums of 8-bit outputs.
\<close>

definition int_to_float :: "int \<Rightarrow> float" where
  "int_to_float i = real_of_int i"

section \<open>Collaborators outside the module\<close>

text \<open>
  \<open>struct pad_temperature\<close> (TemperatureControlPublicAccess.h), reduced to the two
  members this module reads.
\<close>

record pad_temperature =
  current_temperature :: float
  designator :: string

text \<open>
  The settings of one \<open>temperaturefader.<module>\<close> entry of the configuration. A setting
  that the configuration does not hold is \<open>None\<close>; \<open>by_default\<close> then supplies the
  default, as \<open>ConfigValue::by_default\<close> does.
\<close>

record config_entry =
  cfg_enable :: "bool option"
  cfg_designator :: "string option"
  cfg_switch :: "string option"
  cfg_type :: "string option"
  cfg_min_fade_temp :: "float option"
  cfg_max_fade_temp :: "float option"
  cfg_min_fade_pwm :: "float option"
  cfg_max_fade_pwm :: "float option"
  cfg_heatup_poll :: "float option"
  cfg_cooldown_poll :: "float option"
  cfg_fading_poll :: "float option"

definition by_default :: "'a \<Rightarrow> 'a option \<Rightarrow> 'a" where
  "by_default d v = (case v of None \<Rightarrow> d | Some x \<Rightarrow> x)"

text \<open>What \<open>PublicData::set_value\<close> is handed for a switch: its state or its value.\<close>

datatype switch_data = State bool | Value float

text \<open>
  The kernel services the module calls, as parameters: the configuration, the pool of
  temperature controllers, \<open>PublicData::get_value\<close> for a controller's current
  temperature (\<open>None\<close> when the call returns false), the success of a
  \<open>PublicData::set_value\<close> on a switch, \<open>get_checksum\<close>, and the checksum of the module
  name \<open>hotend\<close>.
\<close>

record kernel =
  config_value :: "uint16_t \<Rightarrow> config_entry"
  get_controllers :: "uint16_t list"
  get_value :: "uint16_t \<Rightarrow> pad_temperature option"
  set_value :: "uint16_t \<Rightarrow> switch_data \<Rightarrow> bool"
  get_checksum :: "string \<Rightarrow> uint16_t"
  temperaturefader_hotend_checksum :: uint16_t

text \<open>The calls a function makes on the outside, in the order it makes them.\<close>

datatype event =
    GetValue uint16_t
  | SetValue uint16_t switch_data
  | Printf string

section \<open>The fader\<close>

record TemperatureFader =
  temp_controllers :: "uint16_t list"
  temperaturefader_min_fade_temp :: float
  temperaturefader_max_fade_temp :: float
  temperaturefader_min_fade_pwm :: uint8_t
  temperaturefader_max_fade_pwm :: uint8_t
  temperaturefader_switch_cs :: uint16_t
  temperaturefader_heatup_poll :: uint16_t
  temperaturefader_cooldown_poll :: uint16_t
  temperaturefader_fading_poll :: uint16_t
  countdown_timer :: int16_t
  temperaturefader_pwm_value :: float
  temperaturefader_state :: bool

definition default_heatup_poll :: float where "default_heatup_poll = 15"
definition default_cooldown_poll :: float where "default_cooldown_poll = 60"
definition default_fading_poll :: float where "default_fading_poll = 1"
definition default_min_fade_temp :: float where "default_min_fade_temp = 50"
definition default_max_fade_temp :: float where "default_max_fade_temp = 150"
definition default_min_fade_pwm :: float where "default_min_fade_pwm = 0"
definition default_max_fade_pwm :: float where "default_max_fade_pwm = 255"

text \<open>The constructor \<open>TemperatureFader::TemperatureFader()\<close>.\<close>

definition TemperatureFader_ctor :: TemperatureFader where
  "TemperatureFader_ctor =
     \<lparr> temp_controllers = [],
       temperaturefader_min_fade_temp = default_min_fade_temp,
       temperaturefader_max_fade_temp = default_max_fade_temp,
       temperaturefader_min_fade_pwm = float_to_uint8 default_min_fade_pwm,
       temperaturefader_max_fade_pwm = float_to_uint8 default_max_fade_pwm,
       temperaturefader_switch_cs = 0,
       temperaturefader_heatup_poll = float_to_uint16 default_heatup_poll,
       temperaturefader_cooldown_poll = float_to_uint16 default_cooldown_poll,
       temperaturefader_fading_poll = float_to_uint16 default_fading_poll,
       countdown_timer = 0,
       temperaturefader_pwm_value = 0,
       temperaturefader_state = False \<rparr>"

subsection \<open>\<open>load_config\<close>\<close>

text \<open>\<open>s[0]\<close> of a \<open>std::string\<close>: the terminating NUL when the string is empty.\<close>

definition first_char :: "string \<Rightarrow> char" where
  "first_char s = (case s of [] \<Rightarrow> CHR 0x00 | c # _ \<Rightarrow> c)"

text \<open>
  The loop over the controller pool: a controller is kept when its temperature can be
  read and its designator starts with the wanted character.
\<close>

fun matching_controllers :: "kernel \<Rightarrow> char \<Rightarrow> uint16_t list \<Rightarrow> uint16_t list" where
  "matching_controllers k d [] = []"
| "matching_controllers k d (controller # rest) =
     (case get_value k controller of
        None \<Rightarrow> matching_controllers k d rest
      | Some temp \<Rightarrow>
          if first_char (designator temp) = d
          then controller # matching_controllers k d rest
          else matching_controllers k d rest)"

text \<open>
  \<open>load_config\<close> runs on the loader instance \<open>this\<close> and builds the new fader \<open>ts\<close>. It
  returns the loader as it leaves it, and \<open>Some ts\<close> when it returns true (\<open>ts\<close> is then
  registered for the second tick), \<open>None\<close> when it returns false. The two comparisons
  after the four fade settings are written without \<open>ts->\<close>: they read and assign the
  loader's members. No statement assigns \<open>ts->temperaturefader_fading_poll\<close>. The branch
  that finds no switch name runs \<open>delete this\<close> before it returns false; the model
  returns the loader as it was. Assigning the \<open>uint16_t\<close> heatup interval to the
  \<open>int16_t\<close> counter keeps its sixteen bits.
\<close>

definition load_config ::
  "kernel \<Rightarrow> TemperatureFader \<Rightarrow> uint16_t \<Rightarrow> TemperatureFader \<times> TemperatureFader option" where
  "load_config k this modcs =
    (let e = config_value k modcs in
     if \<not> by_default False (cfg_enable e) then (this, None)
     else
       let s = by_default [] (cfg_designator e);
           d = (if s = []
                then (if modcs = temperaturefader_hotend_checksum k then CHR ''T'' else CHR 0x00)
                else first_char s)
       in
       if d = CHR 0x00 then (this, None)
       else
         let ts = TemperatureFader_ctor
                    \<lparr> temp_controllers := matching_controllers k d (get_controllers k) \<rparr>
         in
         if temp_controllers ts = [] then (this, None)
         else
           let s1 = by_default [] (cfg_switch e);
               s2 = (if s1 = [] then by_default [] (cfg_type e) else s1)
           in
           if s2 = [] then (this, None)
           else
             let ts = ts \<lparr> temperaturefader_switch_cs := get_checksum k s2 \<rparr>;
                 ts = ts \<lparr> temperaturefader_min_fade_temp :=
                              by_default default_min_fade_temp (cfg_min_fade_temp e) \<rparr>;
                 ts = ts \<lparr> temperaturefader_max_fade_temp :=
                              by_default default_max_fade_temp (cfg_max_fade_temp e) \<rparr>;
                 ts = ts \<lparr> temperaturefader_min_fade_pwm :=
                              float_to_uint8 (by_default default_min_fade_pwm (cfg_min_fade_pwm e)) \<rparr>;
                 ts = ts \<lparr> temperaturefader_max_fade_pwm :=
                              float_to_uint8 (by_default default_max_fade_pwm (cfg_max_fade_pwm e)) \<rparr>;
                 this = (if temperaturefader_max_fade_temp this < temperaturefader_min_fade_temp this
                         then this \<lparr> temperaturefader_max_fade_temp :=
                                       temperaturefader_min_fade_temp this \<rparr>
                         else this);
                 this = (if temperaturefader_max_fade_pwm this < temperaturefader_min_fade_pwm this
                         then this \<lparr> temperaturefader_max_fade_pwm :=
                                       temperaturefader_min_fade_pwm this \<rparr>
                         else this);
                 ts = ts \<lparr> temperaturefader_heatup_poll :=
                              float_to_uint16 (by_default default_heatup_poll (cfg_heatup_poll e)) \<rparr>;
                 ts = ts \<lparr> temperaturefader_cooldown_poll :=
                              float_to_uint16 (by_default default_cooldown_poll (cfg_cooldown_poll e)) \<rparr>;
                 ts = ts \<lparr> countdown_timer := temperaturefader_heatup_poll ts \<rparr>
             in (this, Some ts))"

subsection \<open>\<open>get_highest_temperature\<close>\<close>

text \<open>The loop, with \<open>high_temp\<close> as its accumulator.\<close>

fun highest_from :: "kernel \<Rightarrow> float \<Rightarrow> uint16_t list \<Rightarrow> float" where
  "highest_from k high_temp [] = high_temp"
| "highest_from k high_temp (controller # rest) =
     (case get_value k controller of
        None \<Rightarrow> highest_from k high_temp rest
      | Some temp \<Rightarrow>
          if current_temperature temp > high_temp
          then highest_from k (current_temperature temp) rest
          else highest_from k high_temp rest)"

definition get_highest_temperature :: "kernel \<Rightarrow> TemperatureFader \<Rightarrow> float" where
  "get_highest_temperature k this = highest_from k 0 (temp_controllers this)"

text \<open>The reads the loop issues: one \<open>PublicData::get_value\<close> per bound controller.\<close>

definition temperature_reads :: "TemperatureFader \<Rightarrow> event list" where
  "temperature_reads this = map GetValue (temp_controllers this)"

subsection \<open>\<open>set_pwm\<close>\<close>

text \<open>The two messages, each ending in carriage return and line feed.\<close>

definition state_failure_message :: string where
  "state_failure_message = ''Failed updating TemperatureFader state.'' @ [CHR 0x0D, CHR 0x0A]"

definition value_failure_message :: string where
  "value_failure_message = ''Failed updating TemperatureFader pwm value.'' @ [CHR 0x0D, CHR 0x0A]"

text \<open>
  The result is the fader afterwards and the calls made: a \<open>set_value\<close> on the switch,
  followed by the \<open>printf\<close> of the message when that call returned false. The state
  is handed over by the address of the member, after the member has been assigned.
\<close>

definition set_pwm :: "kernel \<Rightarrow> TemperatureFader \<Rightarrow> float \<Rightarrow> TemperatureFader \<times> event list" where
  "set_pwm k this v =
    (if temperaturefader_pwm_value this \<noteq> v then
       let on = (v > uint8_to_float (temperaturefader_min_fade_pwm this));
           (this, ev1) =
             (if on \<noteq> temperaturefader_state this then
                let this = this \<lparr> temperaturefader_state := on \<rparr>;
                    w = State (temperaturefader_state this);
                    ok = set_value k (temperaturefader_switch_cs this) w
                in (this, SetValue (temperaturefader_switch_cs this) w #
                          (if \<not> ok then [Printf state_failure_message] else []))
              else (this, []));
           this = this \<lparr> temperaturefader_pwm_value := v \<rparr>;
           w = Value (temperaturefader_pwm_value this);
           ok = set_value k (temperaturefader_switch_cs this) w
       in (this, ev1 @ SetValue (temperaturefader_switch_cs this) w #
                 (if \<not> ok then [Printf value_failure_message] else []))
     else (this, []))"

subsection \<open>\<open>on_second_tick\<close>\<close>

text \<open>
  The two statements of the fading branch that compute \<open>frac\<close> and \<open>value\<close>. The two
  \<open>uint8_t\<close> outputs are promoted to \<open>int\<close> before they are subtracted and added; their
  difference is converted to a float for the multiplication, and the sum back to a float
  for \<open>value\<close>. \<open>None\<close> is the division by zero.
\<close>

definition fade_value :: "TemperatureFader \<Rightarrow> float \<Rightarrow> float option" where
  "fade_value this current_temp =
     (case float_div (float_sub current_temp (temperaturefader_min_fade_temp this))
             (float_sub (temperaturefader_max_fade_temp this)
                        (temperaturefader_min_fade_temp this)) of
        None \<Rightarrow> None
      | Some frac_v \<Rightarrow>
          Some (int_to_float
                  (uint (temperaturefader_min_fade_pwm this) +
                   float_to_int
                     (float_mul frac_v
                        (int_to_float (uint (temperaturefader_max_fade_pwm this) -
                                       uint (temperaturefader_min_fade_pwm this)))))))"

text \<open>
  \<open>None\<close> is the one outcome without a real value: the fading branch dividing by zero.
  The counter is compared and decremented as a signed number; a poll interval assigned to
  it keeps its sixteen bits.
\<close>

definition on_second_tick ::
  "kernel \<Rightarrow> TemperatureFader \<Rightarrow> (TemperatureFader \<times> event list) option" where
  "on_second_tick k this =
    (if sint (countdown_timer this) \<le> 1 then
       let current_temp = get_highest_temperature k this;
           reads = temperature_reads this
       in
       if current_temp \<le> temperaturefader_min_fade_temp this then
         let (this, ev) = set_pwm k this (uint8_to_float (temperaturefader_min_fade_pwm this))
         in Some (this \<lparr> countdown_timer := temperaturefader_heatup_poll this \<rparr>, reads @ ev)
       else if current_temp \<ge> temperaturefader_max_fade_temp this then
         let (this, ev) = set_pwm k this (uint8_to_float (temperaturefader_max_fade_pwm this))
         in Some (this \<lparr> countdown_timer := temperaturefader_cooldown_poll this \<rparr>, reads @ ev)
       else
         (case fade_value this current_temp of
            None \<Rightarrow> None
          | Some v \<Rightarrow>
              let (this, ev) = set_pwm k this v
              in Some (this \<lparr> countdown_timer := temperaturefader_fading_poll this \<rparr>, reads @ ev))
     else Some (this \<lparr> countdown_timer := countdown_timer this - 1 \<rparr>, []))"

section \<open>Notions used to state the properties\<close>

text \<open>
  The readings of the bound controllers that can be read, in the order of
  \<open>temp_controllers\<close>.
\<close>

definition readable_temperatures :: "kernel \<Rightarrow> TemperatureFader \<Rightarrow> float list" where
  "readable_temperatures k this =
     List.map_filter (\<lambda>c. map_option current_temperature (get_value k c)) (temp_controllers this)"

text \<open>The two kinds of write to the switch.\<close>

fun is_state_write :: "event \<Rightarrow> bool" where
  "is_state_write (SetValue _ (State _)) = True"
| "is_state_write _ = False"

fun is_value_write :: "event \<Rightarrow> bool" where
  "is_value_write (SetValue _ (Value _)) = True"
| "is_value_write _ = False"



text \<open>The stored state agrees with the stored value: on exactly when above the low output.\<close>

definition state_consistent :: "TemperatureFader \<Rightarrow> bool" where
  "state_consistent this =
     (temperaturefader_state this =
        (temperaturefader_pwm_value this > uint8_to_float (temperaturefader_min_fade_pwm this)))"

section \<open>Example inputs\<close>

text \<open>
  A configuration entry that enables a fader on designator \<open>T\<close> driving the switch
  \<open>fan\<close>, every numeric setting left to its default, and a kernel holding that entry,
  with two temperature controllers: controller 1 has designator \<open>T\<close> and reads \<open>t\<close>,
  controller 2 cannot be read. Every write to a switch succeeds.
\<close>

definition example_entry :: config_entry where
  "example_entry =
     \<lparr> cfg_enable = Some True, cfg_designator = Some ''T'', cfg_switch = Some ''fan'',
       cfg_type = None, cfg_min_fade_temp = None, cfg_max_fade_temp = None,
       cfg_min_fade_pwm = None, cfg_max_fade_pwm = None, cfg_heatup_poll = None,
       cfg_cooldown_poll = None, cfg_fading_poll = None \<rparr>"

definition example_kernel :: "config_entry \<Rightarrow> float \<Rightarrow> kernel" where
  "example_kernel e t =
     \<lparr> config_value = (\<lambda>_. e),
       get_controllers = [1, 2],
       get_value = (\<lambda>c. if c = 1 then Some \<lparr> current_temperature = t, designator = ''T'' \<rparr>
                         else None),
       set_value = (\<lambda>_ _. True),
       get_checksum = (\<lambda>_. 7),
       temperaturefader_hotend_checksum = 9 \<rparr>"

text \<open>The same kernel with a switch that refuses every write.\<close>

definition failing_kernel :: kernel where
  "failing_kernel = (example_kernel example_entry 100) \<lparr> set_value := (\<lambda>_ _. False) \<rparr>"

text \<open>The fader \<open>load_config\<close> builds from \<open>example_entry\<close>.\<close>

definition example_fader :: TemperatureFader where
  "example_fader =
     \<lparr> temp_controllers = [1],
       temperaturefader_min_fade_temp = 50,
       temperaturefader_max_fade_temp = 150,
       temperaturefader_min_fade_pwm = 0,
       temperaturefader_max_fade_pwm = 255,
       temperaturefader_switch_cs = 7,
       temperaturefader_heatup_poll = 15,
       temperaturefader_cooldown_poll = 60,
       temperaturefader_fading_poll = 1,
       countdown_timer = 15,
       temperaturefader_pwm_value = 0,
       temperaturefader_state = False \<rparr>"


text \<open>
  Faders due to poll: the example fader; one whose output falls from 200 to 100 over the
  band; one whose output rises from 0 to 100. The entry with a heatup interval of 40000
  and the fader \<open>load_config\<close> builds from it. And the example fader after it has
  dispatched 127.
\<close>

definition due_fader :: TemperatureFader where
  "due_fader = example_fader \<lparr> countdown_timer := 1 \<rparr>"

definition falling_fader :: TemperatureFader where
  "falling_fader =
     example_fader \<lparr> temperaturefader_min_fade_pwm := 200,
                     temperaturefader_max_fade_pwm := 100, countdown_timer := 1 \<rparr>"

definition narrow_fader :: TemperatureFader where
  "narrow_fader = example_fader \<lparr> temperaturefader_max_fade_pwm := 100, countdown_timer := 1 \<rparr>"


definition long_poll_fader :: TemperatureFader where
  "long_poll_fader =
     example_fader \<lparr> temperaturefader_heatup_poll := 40000, countdown_timer := 40000 \<rparr>"

definition warm_fader :: TemperatureFader where
  "warm_fader =
     example_fader \<lparr> temperaturefader_pwm_value := 127, temperaturefader_state := True \<rparr>"

text \<open>An entry whose high bounds lie below its low bounds, and one that sets \<open>fading_poll\<close>.\<close>

definition reversed_entry :: config_entry where
  "reversed_entry =
     example_entry \<lparr> cfg_min_fade_temp := Some 100, cfg_max_fade_temp := Some 50,
                     cfg_min_fade_pwm := Some 200, cfg_max_fade_pwm := Some 100 \<rparr>"

definition fading_entry :: config_entry where
  "fading_entry = example_entry \<lparr> cfg_fading_poll := Some 5 \<rparr>"

text \<open>The fader \<open>load_config\<close> builds from \<open>reversed_entry\<close>.\<close>

definition reversed_fader :: TemperatureFader where
  "reversed_fader =
     example_fader \<lparr> temperaturefader_min_fade_temp := 100,
                     temperaturefader_max_fade_temp := 50,
                     temperaturefader_min_fade_pwm := 200,
                     temperaturefader_max_fade_pwm := 100 \<rparr>"

section \<open>Ticks between two polls\<close>

lemma sint_dec:
  fixes c :: int16_t
  assumes "1 < sint c"
  shows "sint (c - 1) = sint c - 1"
proof -
  have "sint c < 2 ^ 15"
    using sint_lt [of c] by simp
  with assms have "signed_take_bit 15 (sint c - 1) = sint c - 1"
    by (simp add: signed_take_bit_int_eq_self)
  then show ?thesis
    by (simp add: sint_word_diff)
qed

text \<open>
  Claim C9. On a tick with \<open>countdown_timer > 1\<close> the handler only decrements the
  counter, by exactly one: it makes no call on the outside (no temperature read, no
  switch write, no message), and every other member of the fader keeps its value.
\<close>

theorem on_second_tick_waiting:
  "1 < sint (countdown_timer this) \<Longrightarrow>
     on_second_tick k this = Some (this \<lparr> countdown_timer := countdown_timer this - 1 \<rparr>, [])
     \<and> sint (countdown_timer this - 1) = sint (countdown_timer this) - 1"
  by (simp add: on_second_tick_def sint_dec)

theorem on_second_tick_waiting_witness:
  "1 < sint (5 :: int16_t)
   \<and> on_second_tick (example_kernel example_entry 100)
         (TemperatureFader_ctor \<lparr> countdown_timer := 5 \<rparr>)
       = Some (TemperatureFader_ctor \<lparr> countdown_timer := 4 \<rparr>, [])"
  using on_second_tick_waiting
          [of "TemperatureFader_ctor \<lparr> countdown_timer := 5 \<rparr>" "example_kernel example_entry 100"]
  by simp

section \<open>Output dispatch\<close>

lemma set_pwm_same:
  "temperaturefader_pwm_value this = v \<Longrightarrow> set_pwm k this v = (this, [])"
  by (simp add: set_pwm_def)

lemma set_pwm_changed:
  assumes "temperaturefader_pwm_value this \<noteq> v"
  shows "set_pwm k this v =
    (this \<lparr> temperaturefader_state := (uint8_to_float (temperaturefader_min_fade_pwm this) < v),
            temperaturefader_pwm_value := v \<rparr>,
     (if (uint8_to_float (temperaturefader_min_fade_pwm this) < v) \<noteq> temperaturefader_state this
      then SetValue (temperaturefader_switch_cs this)
             (State (uint8_to_float (temperaturefader_min_fade_pwm this) < v)) #
           (if set_value k (temperaturefader_switch_cs this)
                 (State (uint8_to_float (temperaturefader_min_fade_pwm this) < v))
            then [] else [Printf state_failure_message])
      else []) @
     SetValue (temperaturefader_switch_cs this) (Value v) #
     (if set_value k (temperaturefader_switch_cs this) (Value v)
      then [] else [Printf value_failure_message]))"
  using assms by (auto simp add: set_pwm_def Let_def)

lemma set_pwm_pwm_value: "temperaturefader_pwm_value (fst (set_pwm k this v)) = v"
  by (cases "temperaturefader_pwm_value this = v") (simp_all add: set_pwm_same set_pwm_changed)

lemma set_pwm_frame:
  "temp_controllers (fst (set_pwm k this v)) = temp_controllers this"
  "temperaturefader_min_fade_temp (fst (set_pwm k this v)) = temperaturefader_min_fade_temp this"
  "temperaturefader_max_fade_temp (fst (set_pwm k this v)) = temperaturefader_max_fade_temp this"
  "temperaturefader_min_fade_pwm (fst (set_pwm k this v)) = temperaturefader_min_fade_pwm this"
  "temperaturefader_max_fade_pwm (fst (set_pwm k this v)) = temperaturefader_max_fade_pwm this"
  "temperaturefader_switch_cs (fst (set_pwm k this v)) = temperaturefader_switch_cs this"
  "temperaturefader_heatup_poll (fst (set_pwm k this v)) = temperaturefader_heatup_poll this"
  "temperaturefader_cooldown_poll (fst (set_pwm k this v)) = temperaturefader_cooldown_poll this"
  "temperaturefader_fading_poll (fst (set_pwm k this v)) = temperaturefader_fading_poll this"
  "countdown_timer (fst (set_pwm k this v)) = countdown_timer this"
  by (cases "temperaturefader_pwm_value this = v"; simp add: set_pwm_same set_pwm_changed)+

lemma set_pwm_consistent:
  "state_consistent this \<Longrightarrow> state_consistent (fst (set_pwm k this v))"
  by (cases "temperaturefader_pwm_value this = v")
     (simp_all add: set_pwm_same set_pwm_changed state_consistent_def)

text \<open>
  Claim C7. A call of \<open>set_pwm\<close> with a value other than the stored one computes
  \<open>on = (value > min_fade_pwm)\<close>. It writes the state to the switch exactly when \<open>on\<close>
  differs from the stored state, and what it writes is the state already updated to
  \<open>on\<close>. It then stores the value and writes it to the switch. The fader afterwards does
  not depend on whether a write succeeded: a refused write is followed by its message
  and by nothing else, so no write is issued twice.
\<close>

theorem set_pwm_writes:
  assumes "temperaturefader_pwm_value this \<noteq> v"
    and "on = (v > uint8_to_float (temperaturefader_min_fade_pwm this))"
    and "cs = temperaturefader_switch_cs this"
  shows "fst (set_pwm k this v)
           = this \<lparr> temperaturefader_state := on, temperaturefader_pwm_value := v \<rparr>
       \<and> snd (set_pwm k this v)
           = (if on \<noteq> temperaturefader_state this
              then SetValue cs (State on) #
                   (if set_value k cs (State on) then [] else [Printf state_failure_message])
              else [])
             @ SetValue cs (Value v) #
               (if set_value k cs (Value v) then [] else [Printf value_failure_message])"
  using assms(2,3) by (simp add: set_pwm_changed [OF assms(1)])

theorem set_pwm_writes_witness:
  "temperaturefader_pwm_value example_fader \<noteq> 127
   \<and> (127 > uint8_to_float (temperaturefader_min_fade_pwm example_fader))
   \<and> fst (set_pwm failing_kernel example_fader 127)
       = example_fader \<lparr> temperaturefader_state := True, temperaturefader_pwm_value := 127 \<rparr>
   \<and> snd (set_pwm failing_kernel example_fader 127)
       = [SetValue 7 (State True), Printf state_failure_message,
          SetValue 7 (Value 127), Printf value_failure_message]"
proof -
  have a: "temperaturefader_pwm_value example_fader \<noteq> 127"
    by (simp add: example_fader_def)
  have b: "True = (127 > uint8_to_float (temperaturefader_min_fade_pwm example_fader))"
    by (simp add: example_fader_def uint8_to_float_def)
  have c: "7 = temperaturefader_switch_cs example_fader"
    by (simp add: example_fader_def)
  have d: "temperaturefader_state example_fader = False"
    by (simp add: example_fader_def)
  have e: "set_value failing_kernel 7 w = False" for w
    by (simp add: failing_kernel_def)
  from set_pwm_writes [OF a b c, of failing_kernel] a b
  show ?thesis by (simp add: d e)
qed

text \<open>
  Claim C8 as stated fails: two consecutive calls with the same value need not produce a
  pair of writes. The fader that is on at 127 and is handed 200 twice writes the value
  once and the state not at all.
\<close>

theorem set_pwm_single_write:
  "temperaturefader_pwm_value warm_fader \<noteq> 200
   \<and> snd (set_pwm (example_kernel example_entry 100) warm_fader 200)
       @ snd (set_pwm (example_kernel example_entry 100)
                (fst (set_pwm (example_kernel example_entry 100) warm_fader 200)) 200)
     = [SetValue 7 (Value 200)]"
  by (simp add: set_pwm_def Let_def warm_fader_def example_fader_def example_kernel_def
        uint8_to_float_def)

text \<open>
  Claim C8, amended. A call of \<open>set_pwm\<close> with the stored value changes nothing and makes
  no call on the outside. So after any call, a second call with the same value is such a
  no-op. Two consecutive calls with a value other than the stored one make together the
  calls of the first alone: the value write once, and before it the state write once when
  \<open>value > min_fade_pwm\<close> differs from the stored state and not at all otherwise (each
  write followed by its message when it is refused). Two consecutive calls with the stored
  value make no call.
\<close>

theorem set_pwm_idempotent:
  "(temperaturefader_pwm_value this = v \<longrightarrow> set_pwm k this v = (this, []))
   \<and> set_pwm k2 (fst (set_pwm k1 this v)) v = (fst (set_pwm k1 this v), [])
   \<and> (temperaturefader_pwm_value this \<noteq> v \<longrightarrow>
        snd (set_pwm k1 this v) @ snd (set_pwm k2 (fst (set_pwm k1 this v)) v)
          = (if (uint8_to_float (temperaturefader_min_fade_pwm this) < v)
                  \<noteq> temperaturefader_state this
             then SetValue (temperaturefader_switch_cs this)
                    (State (uint8_to_float (temperaturefader_min_fade_pwm this) < v)) #
                  (if set_value k1 (temperaturefader_switch_cs this)
                        (State (uint8_to_float (temperaturefader_min_fade_pwm this) < v))
                   then [] else [Printf state_failure_message])
             else [])
            @ SetValue (temperaturefader_switch_cs this) (Value v) #
              (if set_value k1 (temperaturefader_switch_cs this) (Value v)
               then [] else [Printf value_failure_message])
        \<and> length (filter is_value_write
                  (snd (set_pwm k1 this v) @ snd (set_pwm k2 (fst (set_pwm k1 this v)) v))) = 1
        \<and> length (filter is_state_write
                  (snd (set_pwm k1 this v) @ snd (set_pwm k2 (fst (set_pwm k1 this v)) v)))
            = (if (uint8_to_float (temperaturefader_min_fade_pwm this) < v)
                    \<noteq> temperaturefader_state this then 1 else 0))
   \<and> (temperaturefader_pwm_value this = v \<longrightarrow>
        snd (set_pwm k1 this v) @ snd (set_pwm k2 (fst (set_pwm k1 this v)) v) = [])"
proof (intro conjI impI)
  assume "temperaturefader_pwm_value this = v"
  then show "set_pwm k this v = (this, [])"
    by (rule set_pwm_same)
next
  show second: "set_pwm k2 (fst (set_pwm k1 this v)) v = (fst (set_pwm k1 this v), [])"
    by (rule set_pwm_same) (rule set_pwm_pwm_value)
  {
    assume ne: "temperaturefader_pwm_value this \<noteq> v"
    show "snd (set_pwm k1 this v) @ snd (set_pwm k2 (fst (set_pwm k1 this v)) v)
          = (if (uint8_to_float (temperaturefader_min_fade_pwm this) < v)
                  \<noteq> temperaturefader_state this
             then SetValue (temperaturefader_switch_cs this)
                    (State (uint8_to_float (temperaturefader_min_fade_pwm this) < v)) #
                  (if set_value k1 (temperaturefader_switch_cs this)
                        (State (uint8_to_float (temperaturefader_min_fade_pwm this) < v))
                   then [] else [Printf state_failure_message])
             else [])
            @ SetValue (temperaturefader_switch_cs this) (Value v) #
              (if set_value k1 (temperaturefader_switch_cs this) (Value v)
               then [] else [Printf value_failure_message])"
      unfolding second by (simp add: set_pwm_changed [OF ne])
    show "length (filter is_value_write
            (snd (set_pwm k1 this v) @ snd (set_pwm k2 (fst (set_pwm k1 this v)) v))) = 1"
      unfolding second by (simp add: set_pwm_changed [OF ne])
    show "length (filter is_state_write
            (snd (set_pwm k1 this v) @ snd (set_pwm k2 (fst (set_pwm k1 this v)) v)))
          = (if (uint8_to_float (temperaturefader_min_fade_pwm this) < v)
                  \<noteq> temperaturefader_state this then 1 else 0)"
      unfolding second by (simp add: set_pwm_changed [OF ne])
  }
  assume eq: "temperaturefader_pwm_value this = v"
  show "snd (set_pwm k1 this v) @ snd (set_pwm k2 (fst (set_pwm k1 this v)) v) = []"
    unfolding second by (simp add: set_pwm_same [OF eq])
qed

theorem set_pwm_idempotent_witness:
  "temperaturefader_pwm_value example_fader \<noteq> 127
   \<and> snd (set_pwm (example_kernel example_entry 100) example_fader 127)
       @ snd (set_pwm failing_kernel
                (fst (set_pwm (example_kernel example_entry 100) example_fader 127)) 127)
       = [SetValue 7 (State True), SetValue 7 (Value 127)]
   \<and> set_pwm failing_kernel (fst (set_pwm (example_kernel example_entry 100) example_fader 127)) 127
       = (fst (set_pwm (example_kernel example_entry 100) example_fader 127), [])
   \<and> temperaturefader_pwm_value warm_fader \<noteq> 200
   \<and> snd (set_pwm failing_kernel warm_fader 200)
       @ snd (set_pwm failing_kernel (fst (set_pwm failing_kernel warm_fader 200)) 200)
       = [SetValue 7 (Value 200), Printf value_failure_message]
   \<and> temperaturefader_pwm_value example_fader = 0
   \<and> set_pwm failing_kernel example_fader 0 = (example_fader, [])
   \<and> snd (set_pwm failing_kernel example_fader 0)
       @ snd (set_pwm failing_kernel (fst (set_pwm failing_kernel example_fader 0)) 0) = []"
proof -
  have a: "temperaturefader_pwm_value example_fader \<noteq> 127"
    by (simp add: example_fader_def)
  have b: "temperaturefader_pwm_value example_fader = 0"
    by (simp add: example_fader_def)
  have c: "temperaturefader_pwm_value warm_fader \<noteq> 200"
    by (simp add: warm_fader_def)
  have facts:
    "uint8_to_float (temperaturefader_min_fade_pwm example_fader) < 127"
    "temperaturefader_state example_fader = False"
    "temperaturefader_switch_cs example_fader = 7"
    "uint8_to_float (temperaturefader_min_fade_pwm warm_fader) < 200"
    "temperaturefader_state warm_fader = True"
    "temperaturefader_switch_cs warm_fader = 7"
    "set_value (example_kernel example_entry 100) 7 w = True"
    "set_value failing_kernel 7 w = False" for w
    by (simp_all add: example_fader_def warm_fader_def uint8_to_float_def example_kernel_def
          failing_kernel_def)
  note i1 = set_pwm_idempotent
         [where this = example_fader and v = 127 and k = failing_kernel
            and ?k1.0 = "example_kernel example_entry 100" and ?k2.0 = failing_kernel]
  note i2 = set_pwm_idempotent
         [where this = warm_fader and v = 200 and k = failing_kernel
            and ?k1.0 = failing_kernel and ?k2.0 = failing_kernel]
  note i3 = set_pwm_idempotent
         [where this = example_fader and v = 0 and k = failing_kernel
            and ?k1.0 = failing_kernel and ?k2.0 = failing_kernel]
  have w1: "snd (set_pwm (example_kernel example_entry 100) example_fader 127)
       @ snd (set_pwm failing_kernel
                (fst (set_pwm (example_kernel example_entry 100) example_fader 127)) 127)
       = [SetValue 7 (State True), SetValue 7 (Value 127)]"
    using i1 [THEN conjunct2, THEN conjunct2, THEN conjunct1, rule_format, OF a,
              THEN conjunct1]
    by (simp only: facts) simp
  have w2: "set_pwm failing_kernel
              (fst (set_pwm (example_kernel example_entry 100) example_fader 127)) 127
       = (fst (set_pwm (example_kernel example_entry 100) example_fader 127), [])"
    by (rule i1 [THEN conjunct2, THEN conjunct1])
  have w3: "snd (set_pwm failing_kernel warm_fader 200)
       @ snd (set_pwm failing_kernel (fst (set_pwm failing_kernel warm_fader 200)) 200)
       = [SetValue 7 (Value 200), Printf value_failure_message]"
    using i2 [THEN conjunct2, THEN conjunct2, THEN conjunct1, rule_format, OF c,
              THEN conjunct1]
    by (simp only: facts) simp
  have w4: "set_pwm failing_kernel example_fader 0 = (example_fader, [])"
    by (rule i3 [THEN conjunct1, rule_format, OF b])
  have w5: "snd (set_pwm failing_kernel example_fader 0)
       @ snd (set_pwm failing_kernel (fst (set_pwm failing_kernel example_fader 0)) 0) = []"
    by (rule i3 [THEN conjunct2, THEN conjunct2, THEN conjunct2, rule_format, OF b])
  show ?thesis
    using a b c w1 w2 w3 w4 w5 by (simp only: simp_thms)
qed

section \<open>Creation\<close>

lemmas example_defs =
  example_kernel_def example_entry_def by_default_def first_char_def TemperatureFader_ctor_def
  float_to_uint8_def float_to_uint16_def float_to_int_def
  default_heatup_poll_def default_cooldown_poll_def default_fading_poll_def
  default_min_fade_temp_def default_max_fade_temp_def default_min_fade_pwm_def
  default_max_fade_pwm_def

text \<open>What every fader that \<open>load_config\<close> returns starts with.\<close>

lemma load_config_created:
  assumes "load_config k this modcs = (this', Some ts)"
  shows "temperaturefader_pwm_value ts = 0"
    and "temperaturefader_state ts = False"
    and "temperaturefader_fading_poll ts = 1"
    and "temp_controllers ts \<noteq> []"
    and "countdown_timer ts = temperaturefader_heatup_poll ts"
  using assms
  by (auto simp add: load_config_def Let_def TemperatureFader_ctor_def float_to_uint16_def
        float_to_int_def default_fading_poll_def
      split: if_splits)

lemma load_config_example:
  "load_config (example_kernel example_entry t) TemperatureFader_ctor 1
     = (TemperatureFader_ctor, Some example_fader)"
  by (simp add: load_config_def Let_def example_defs example_fader_def)

text \<open>
  Claim C1, evaluated where it fails. The entry \<open>reversed_entry\<close> sets
  \<open>min_fade_temp = 100\<close>, \<open>max_fade_temp = 50\<close>, \<open>min_fade_pwm = 200\<close> and
  \<open>max_fade_pwm = 100\<close>. \<open>load_config\<close> accepts it, and the fader it creates keeps
  the four values as they are: high below low, for the temperature and for the output.
  The loader, whose members the two comparisons read, is left as it was.
\<close>

theorem load_config_keeps_reversed_bounds:
  "load_config (example_kernel reversed_entry 100) TemperatureFader_ctor 1
     = (TemperatureFader_ctor, Some reversed_fader)
   \<and> temperaturefader_max_fade_temp reversed_fader < temperaturefader_min_fade_temp reversed_fader
   \<and> temperaturefader_max_fade_pwm reversed_fader < temperaturefader_min_fade_pwm reversed_fader"
  by (simp add: load_config_def Let_def example_defs example_fader_def reversed_entry_def
        reversed_fader_def)

text \<open>
  Claim C3, evaluated where it fails. The entry \<open>fading_entry\<close> sets
  \<open>fading_poll = 5\<close>. \<open>load_config\<close> accepts it, and the fader it creates has
  \<open>temperaturefader_fading_poll = 1\<close>, the constructor's default.
\<close>

theorem load_config_ignores_fading_poll:
  "load_config (example_kernel fading_entry 100) TemperatureFader_ctor 1
     = (TemperatureFader_ctor, Some example_fader)
   \<and> temperaturefader_fading_poll example_fader = 1
   \<and> cfg_fading_poll (config_value (example_kernel fading_entry 100) 1) = Some 5"
  by (simp add: load_config_def Let_def example_defs example_fader_def fading_entry_def)

text \<open>
  Claim C2 as stated fails: the stored value starts at 0, which is a value
  \<open>on_second_tick\<close> dispatches. For the fader created from \<open>example_entry\<close>, whose low
  output is 0, a first \<open>set_pwm\<close> of that low output makes no call and changes nothing.
\<close>

theorem first_dispatch_suppressed:
  "snd (load_config (example_kernel example_entry 40) TemperatureFader_ctor 1) = Some example_fader
   \<and> temperaturefader_min_fade_pwm example_fader = 0
   \<and> set_pwm (example_kernel example_entry 40) example_fader
        (uint8_to_float (temperaturefader_min_fade_pwm example_fader)) = (example_fader, [])"
  by (simp add: load_config_example set_pwm_def example_fader_def uint8_to_float_def)

text \<open>
  Claim C2, amended. A fader that \<open>load_config\<close> returns starts with the stored value 0
  and the state off. Its first \<open>set_pwm\<close> with any value other than 0 is not
  suppressed: it stores the value and sets the state to \<open>value > min_fade_pwm\<close>, and its
  calls are, in this order, the write of the state on, made exactly when the value is
  above \<open>min_fade_pwm\<close>, and the write of the value; a refused write is followed by its
  message, and there is no other call. Its first \<open>set_pwm\<close> with 0 makes no call and
  changes nothing.
\<close>

theorem first_dispatch:
  assumes "load_config k this modcs = (this', Some ts)"
  shows "temperaturefader_pwm_value ts = 0 \<and> temperaturefader_state ts = False
    \<and> (v \<noteq> 0 \<longrightarrow>
         fst (set_pwm k' ts v)
           = ts \<lparr> temperaturefader_state := (uint8_to_float (temperaturefader_min_fade_pwm ts) < v),
                   temperaturefader_pwm_value := v \<rparr>
         \<and> snd (set_pwm k' ts v)
           = (if uint8_to_float (temperaturefader_min_fade_pwm ts) < v
              then SetValue (temperaturefader_switch_cs ts) (State True) #
                   (if set_value k' (temperaturefader_switch_cs ts) (State True)
                    then [] else [Printf state_failure_message])
              else [])
             @ SetValue (temperaturefader_switch_cs ts) (Value v) #
               (if set_value k' (temperaturefader_switch_cs ts) (Value v)
                then [] else [Printf value_failure_message]))
    \<and> (v = 0 \<longrightarrow> set_pwm k' ts v = (ts, []))"
proof -
  note c = load_config_created(1,2) [OF assms]
  show ?thesis
  proof (intro conjI impI)
    show "temperaturefader_pwm_value ts = 0" "temperaturefader_state ts = False"
      by (rule c)+
  next
    assume "v = 0"
    then show "set_pwm k' ts v = (ts, [])"
      by (simp add: set_pwm_same c)
  next
    assume "v \<noteq> 0"
    then have ne: "temperaturefader_pwm_value ts \<noteq> v"
      by (simp add: c)
    show "fst (set_pwm k' ts v)
           = ts \<lparr> temperaturefader_state := (uint8_to_float (temperaturefader_min_fade_pwm ts) < v),
                   temperaturefader_pwm_value := v \<rparr>"
      by (simp add: set_pwm_changed [OF ne])
    show "snd (set_pwm k' ts v)
           = (if uint8_to_float (temperaturefader_min_fade_pwm ts) < v
              then SetValue (temperaturefader_switch_cs ts) (State True) #
                   (if set_value k' (temperaturefader_switch_cs ts) (State True)
                    then [] else [Printf state_failure_message])
              else [])
             @ SetValue (temperaturefader_switch_cs ts) (Value v) #
               (if set_value k' (temperaturefader_switch_cs ts) (Value v)
                then [] else [Printf value_failure_message])"
      by (simp add: set_pwm_changed [OF ne] c)
  qed
qed

theorem first_dispatch_witness:
  "load_config (example_kernel example_entry 100) TemperatureFader_ctor 1
      = (TemperatureFader_ctor, Some example_fader)
   \<and> fst (set_pwm failing_kernel example_fader 127)
       = example_fader \<lparr> temperaturefader_state := True, temperaturefader_pwm_value := 127 \<rparr>
   \<and> snd (set_pwm failing_kernel example_fader 127)
       = [SetValue 7 (State True), Printf state_failure_message,
          SetValue 7 (Value 127), Printf value_failure_message]
   \<and> snd (set_pwm (example_kernel example_entry 100) example_fader 127)
       = [SetValue 7 (State True), SetValue 7 (Value 127)]
   \<and> set_pwm (example_kernel example_entry 100) example_fader 0 = (example_fader, [])"
proof -
  have created: "load_config (example_kernel example_entry 100) TemperatureFader_ctor 1
      = (TemperatureFader_ctor, Some example_fader)"
    by (rule load_config_example)
  have facts:
    "uint8_to_float (temperaturefader_min_fade_pwm example_fader) < 127"
    "temperaturefader_switch_cs example_fader = 7"
    "set_value (example_kernel example_entry 100) 7 w = True"
    "set_value failing_kernel 7 w = False" for w
    by (simp_all add: example_fader_def uint8_to_float_def example_kernel_def failing_kernel_def)
  from first_dispatch [OF created, where v = 127 and k' = failing_kernel]
       first_dispatch [OF created, where v = 127 and k' = "example_kernel example_entry 100"]
       first_dispatch [OF created, where v = 0 and k' = "example_kernel example_entry 100"]
       created
  show ?thesis by (simp add: facts)
qed

section \<open>The sampled temperature\<close>

text \<open>The loop is a left fold of \<open>max\<close> over the readable readings.\<close>

lemma highest_from_fold:
  "highest_from k h cs =
     fold max (List.map_filter (\<lambda>c. map_option current_temperature (get_value k c)) cs) h"
proof (induction cs arbitrary: h)
  case Nil
  then show ?case
    by (simp add: List.map_filter_simps)
next
  case (Cons c cs)
  show ?case
  proof (cases "get_value k c")
    case None
    then show ?thesis
      by (simp add: Cons.IH List.map_filter_simps)
  next
    case (Some temp)
    then show ?thesis
      by (simp add: Cons.IH List.map_filter_simps max_def)
  qed
qed

lemma highest_from_Max:
  "highest_from k h cs =
     Max (insert h (set (List.map_filter (\<lambda>c. map_option current_temperature (get_value k c)) cs)))"
  using Max.set_eq_fold
          [of h "List.map_filter (\<lambda>c. map_option current_temperature (get_value k c)) cs"]
  by (simp add: highest_from_fold)

text \<open>
  Where the loop and the maximum of the readable readings agree: the loop returns that
  maximum when some readable reading is zero or more, and 0 when nothing can be read.
\<close>

lemma get_highest_temperature_agrees:
  "(readable_temperatures k this = [] \<longrightarrow> get_highest_temperature k this = 0)
   \<and> ((\<exists>r \<in> set (readable_temperatures k this). 0 \<le> r) \<longrightarrow>
         get_highest_temperature k this = Max (set (readable_temperatures k this)))"
proof -
  let ?R = "set (readable_temperatures k this)"
  have eq: "get_highest_temperature k this = Max (insert 0 ?R)"
    by (simp add: get_highest_temperature_def readable_temperatures_def highest_from_Max)
  have fin: "finite ?R"
    by simp
  have a: "readable_temperatures k this = [] \<longrightarrow> get_highest_temperature k this = 0"
    by (simp add: eq)
  have b: "(\<exists>r \<in> ?R. 0 \<le> r) \<longrightarrow> get_highest_temperature k this = Max ?R"
  proof
    assume "\<exists>r \<in> ?R. 0 \<le> r"
    then obtain r where r: "r \<in> ?R" "0 \<le> r"
      by blast
    then have ne: "?R \<noteq> {}"
      by auto
    have "r \<le> Max ?R"
      using fin r(1) by simp
    then have "0 \<le> Max ?R"
      using r(2) by linarith
    then show "get_highest_temperature k this = Max ?R"
      using fin ne by (simp add: eq max_def)
  qed
  show ?thesis
    using a b by blast
qed

text \<open>
  Claim C4, evaluated where it fails. The fader is bound to controller 1, which can be
  read and reports -5. The maximum of the readable readings is -5; the loop, which starts
  from 0.0 and only takes a greater reading, returns 0.
\<close>

theorem get_highest_temperature_below_zero:
  "readable_temperatures (example_kernel example_entry (- 5)) example_fader = [- 5]
   \<and> get_highest_temperature (example_kernel example_entry (- 5)) example_fader = 0
   \<and> get_highest_temperature (example_kernel example_entry (- 5)) example_fader
       \<noteq> Max (set (readable_temperatures (example_kernel example_entry (- 5)) example_fader))"
  by (simp add: readable_temperatures_def get_highest_temperature_def example_fader_def
        example_kernel_def List.map_filter_simps)

section \<open>Rounding to single precision\<close>

lemma round_half_even_ge_1: "1 \<le> y \<Longrightarrow> 1 \<le> round_half_even y"
proof -
  assume "1 \<le> y"
  then have "1 \<le> \<lfloor>y\<rfloor>"
    by (simp add: le_floor_iff)
  then show ?thesis
    by (simp add: round_half_even_def Let_def)
qed

lemma round_half_even_le_minus_1: "y \<le> - 1 \<Longrightarrow> round_half_even y \<le> - 1"
proof -
  assume y: "y \<le> - 1"
  then have f: "\<lfloor>y\<rfloor> \<le> - 1"
    by (simp add: floor_le_iff)
  show ?thesis
  proof (cases "\<lfloor>y\<rfloor> = - 1")
    case True
    then have "- 1 \<le> y"
      using of_int_floor_le [of y] by simp
    with y have "y = of_int \<lfloor>y\<rfloor>"
      using True by simp
    then have "y - of_int \<lfloor>y\<rfloor> = 0"
      by simp
    then show ?thesis
      using f by (simp add: round_half_even_def Let_def)
  next
    case False
    with f have "\<lfloor>y\<rfloor> + 1 \<le> - 1"
      by linarith
    with f show ?thesis
      by (simp add: round_half_even_def Let_def)
  qed
qed


text \<open>The rounded value is within half a unit of the scaled argument.\<close>

lemma round_half_even_near: "\<bar>of_int (round_half_even y) - y\<bar> \<le> 1 / 2"
proof -
  have "of_int \<lfloor>y\<rfloor> \<le> y" "y < of_int \<lfloor>y\<rfloor> + 1"
    by linarith+
  then show ?thesis
    by (auto simp add: round_half_even_def Let_def)
qed

lemma quantum_search_bound:
  "quantum_search n a = - 149 \<or> 2 powi (quantum_search n a + 23) \<le> a"
proof (induction n)
  case 0
  then show ?case
    by simp
next
  case (Suc n)
  have "int (Suc n) - 149 + 23 = int (Suc n) - 126"
    by simp
  with Suc show ?case
    by (simp del: of_nat_Suc)
qed

lemma quantum_exp_le:
  assumes "2 powi (- 149) \<le> \<bar>x\<bar>"
  shows "2 powi quantum_exp x \<le> \<bar>x\<bar>"
proof -
  from quantum_search_bound [of 253 "\<bar>x\<bar>"]
  consider "quantum_exp x = - 149" | "2 powi (quantum_exp x + 23) \<le> \<bar>x\<bar>"
    by (auto simp add: quantum_exp_def)
  then show ?thesis
  proof cases
    case 1
    with assms show ?thesis
      by simp
  next
    case 2
    have "(2 :: real) powi quantum_exp x \<le> 2 powi (quantum_exp x + 23)"
      by (rule power_int_increasing) simp_all
    with 2 show ?thesis
      by linarith
  qed
qed

text \<open>Rounding gives zero only for zero, and keeps the sign.\<close>

lemma round_float_eq_0_iff: "round_float x = 0 \<longleftrightarrow> x = 0"
proof (cases "\<bar>x\<bar> < 2 powi (- 149)")
  case True
  then show ?thesis
    by (simp add: round_float_def)
next
  case False
  then have big: "2 powi (- 149) \<le> \<bar>x\<bar>"
    by simp
  have pos: "(0 :: real) < 2 powi quantum_exp x"
    by simp
  have "0 < (2 :: real) powi (- 149)"
    by simp
  with big have nz: "x \<noteq> 0"
    by auto
  from quantum_exp_le [OF big] pos have "1 \<le> \<bar>x\<bar> / 2 powi quantum_exp x"
    by (simp add: le_divide_eq)
  then have "1 \<le> \<bar>x / 2 powi quantum_exp x\<bar>"
    using pos by (simp add: abs_divide)
  then have "1 \<le> x / 2 powi quantum_exp x \<or> x / 2 powi quantum_exp x \<le> - 1"
    by linarith
  then have "round_half_even (x / 2 powi quantum_exp x) \<noteq> 0"
    using round_half_even_ge_1 [of "x / 2 powi quantum_exp x"]
          round_half_even_le_minus_1 [of "x / 2 powi quantum_exp x"]
    by auto
  with False nz show ?thesis
    by (simp add: round_float_def)
qed


text \<open>The search finds the exponent that brackets the magnitude.\<close>

lemma quantum_search_eq:
  assumes "e = - 149 \<or> 2 powi (e + 23) \<le> a"
    and "a < 2 powi (e + 24)"
    and "- 149 \<le> e"
    and "e \<le> int n - 149"
  shows "quantum_search n a = e"
  using assms
proof (induction n)
  case 0
  then show ?case
    by simp
next
  case (Suc n)
  show ?case
  proof (cases "2 powi (int (Suc n) - 126) \<le> a")
    case True
    with Suc.prems(2) have lt: "(2 :: real) powi (int (Suc n) - 126) < 2 powi (e + 24)"
      by linarith
    have "\<not> e + 24 \<le> int (Suc n) - 126"
    proof
      assume "e + 24 \<le> int (Suc n) - 126"
      then have "(2 :: real) powi (e + 24) \<le> 2 powi (int (Suc n) - 126)"
        by (rule power_int_increasing) simp
      with lt show False
        by linarith
    qed
    then have "int (Suc n) - 126 < e + 24"
      by simp
    with Suc.prems(4) have "e = int (Suc n) - 149"
      by linarith
    with True show ?thesis
      by (simp del: of_nat_Suc)
  next
    case False
    have "e \<noteq> int (Suc n) - 149"
    proof
      assume e: "e = int (Suc n) - 149"
      then have "e \<noteq> - 149"
        by simp
      with Suc.prems(1) have "2 powi (e + 23) \<le> a"
        by simp
      moreover have "e + 23 = int (Suc n) - 126"
        using e by simp
      ultimately show False
        using False by simp
    qed
    with Suc.prems(4) have "e \<le> int n - 149"
      by simp
    with Suc.IH Suc.prems(1,2,3) have "quantum_search n a = e"
      by blast
    with False show ?thesis
      by (simp del: of_nat_Suc)
  qed
qed

lemma round_float_eq:
  assumes "2 powi (- 149) \<le> \<bar>x\<bar>"
    and "e = - 149 \<or> 2 powi (e + 23) \<le> \<bar>x\<bar>"
    and "\<bar>x\<bar> < 2 powi (e + 24)"
    and "- 149 \<le> e"
    and "e \<le> 104"
  shows "round_float x = 2 powi e * of_int (round_half_even (x / 2 powi e))"
proof -
  have "quantum_exp x = e"
    unfolding quantum_exp_def
    by (rule quantum_search_eq) (use assms in simp_all)
  with assms(1) show ?thesis
    by (simp add: round_float_def)
qed

text \<open>
  Rounding moves a value by at most half its quantum, and the quantum of a normal
  magnitude is at most \<open>2 ^ - 23\<close> times the magnitude.
\<close>

lemma round_float_near:
  assumes "2 powi (- 149) \<le> \<bar>x\<bar>"
  shows "\<bar>round_float x - x\<bar> \<le> 2 powi quantum_exp x / 2"
proof -
  let ?q = "(2 :: real) powi quantum_exp x"
  have pos: "0 < ?q"
    by simp
  have "round_float x - x = ?q * (of_int (round_half_even (x / ?q)) - x / ?q)"
    using assms pos by (simp add: round_float_def algebra_simps)
  then have "\<bar>round_float x - x\<bar> = ?q * \<bar>of_int (round_half_even (x / ?q)) - x / ?q\<bar>"
    using pos by (simp add: abs_mult)
  also have "\<dots> \<le> ?q * (1 / 2)"
    using pos round_half_even_near [of "x / ?q"] by (intro mult_left_mono) simp_all
  finally show ?thesis
    by simp
qed

section \<open>Ticks that poll\<close>


text \<open>
  Inside the band the divisor of the fading branch is not zero, so the branch has its
  value: each difference rounded, their quotient rounded, its product with the output
  range rounded and then cut towards zero.
\<close>

lemma fade_value_inside:
  assumes "temperaturefader_min_fade_temp this < t"
    and "t < temperaturefader_max_fade_temp this"
  shows "fade_value this t =
    Some (real_of_int
      (uint (temperaturefader_min_fade_pwm this) +
       float_to_int
         (round_float
            (round_float
               (round_float (t - temperaturefader_min_fade_temp this) /
                round_float (temperaturefader_max_fade_temp this -
                             temperaturefader_min_fade_temp this)) *
             real_of_int (uint (temperaturefader_max_fade_pwm this) -
                          uint (temperaturefader_min_fade_pwm this))))))"
proof -
  have "temperaturefader_max_fade_temp this - temperaturefader_min_fade_temp this \<noteq> 0"
    using assms by linarith
  then have "round_float (temperaturefader_max_fade_temp this -
                          temperaturefader_min_fade_temp this) \<noteq> 0"
    by (simp only: round_float_eq_0_iff not_False_eq_True)
  then show ?thesis
    by (simp add: fade_value_def float_div_def float_sub_def float_mul_def int_to_float_def)
qed

text \<open>
  The handler on a tick with \<open>countdown_timer <= 1\<close>, with the result of \<open>set_pwm\<close>
  taken apart. \<open>set_pwm\<close> leaves the poll intervals alone, so the interval the counter is
  reset to is the fader's own.
\<close>

lemma on_second_tick_acting:
  assumes "sint (countdown_timer this) \<le> 1"
  shows "on_second_tick k this =
    (if get_highest_temperature k this \<le> temperaturefader_min_fade_temp this then
       Some ((fst (set_pwm k this (uint8_to_float (temperaturefader_min_fade_pwm this))))
               \<lparr> countdown_timer := temperaturefader_heatup_poll this \<rparr>,
             temperature_reads this @
             snd (set_pwm k this (uint8_to_float (temperaturefader_min_fade_pwm this))))
     else if temperaturefader_max_fade_temp this \<le> get_highest_temperature k this then
       Some ((fst (set_pwm k this (uint8_to_float (temperaturefader_max_fade_pwm this))))
               \<lparr> countdown_timer := temperaturefader_cooldown_poll this \<rparr>,
             temperature_reads this @
             snd (set_pwm k this (uint8_to_float (temperaturefader_max_fade_pwm this))))
     else
       Some ((fst (set_pwm k this (the (fade_value this (get_highest_temperature k this)))))
               \<lparr> countdown_timer := temperaturefader_fading_poll this \<rparr>,
             temperature_reads this @
             snd (set_pwm k this (the (fade_value this (get_highest_temperature k this))))))"
proof (cases "temperaturefader_min_fade_temp this < get_highest_temperature k this
              \<and> get_highest_temperature k this < temperaturefader_max_fade_temp this")
  case True
  then show ?thesis
    using assms
    by (simp add: on_second_tick_def Let_def split_beta set_pwm_frame
          fade_value_inside [of this "get_highest_temperature k this"])
next
  case False
  then show ?thesis
    using assms by (auto simp add: on_second_tick_def Let_def split_beta set_pwm_frame)
qed



text \<open>The example ticks.\<close>

lemmas fader_defs =
  due_fader_def falling_fader_def narrow_fader_def long_poll_fader_def example_fader_def

lemmas fade_eval =
  fade_value_def float_div_def float_sub_def float_mul_def int_to_float_def float_to_int_def
  round_half_even_def Let_def

lemma due_temperature:
  "get_highest_temperature (example_kernel example_entry t) due_fader = max 0 t"
  "get_highest_temperature (example_kernel example_entry t) falling_fader = max 0 t"
  "get_highest_temperature (example_kernel example_entry t) narrow_fader = max 0 t"
  "get_highest_temperature (example_kernel example_entry t) long_poll_fader = max 0 t"
  by (simp_all add: get_highest_temperature_def fader_defs example_kernel_def max_def)

lemma example_fade_values:
  "fade_value due_fader 100 = Some 127"
  "fade_value due_fader (16191247 / 262144) = Some 30"
  "fade_value narrow_fader 103 = Some 52"
  "fade_value falling_fader (151 / 2) = Some 175"
  by (simp_all add: fade_eval fader_defs
        round_float_eq [where e = "- 17"] round_float_eq [where e = "- 18"]
        round_float_eq [where e = "- 19"] round_float_eq [where e = "- 20"]
        round_float_eq [where e = "- 24"] round_float_eq [where e = "- 25"]
        round_float_eq [where e = "- 27"])


lemma on_second_tick_fading:
  assumes "sint (countdown_timer this) \<le> 1"
    and "get_highest_temperature k this = t"
    and "temperaturefader_min_fade_temp this < t"
    and "t < temperaturefader_max_fade_temp this"
    and "fade_value this t = Some v"
    and "set_pwm k this v = (this', ev)"
  shows "on_second_tick k this =
           Some (this' \<lparr> countdown_timer := temperaturefader_fading_poll this \<rparr>,
                 temperature_reads this @ ev)"
  using assms(2-6) by (simp add: on_second_tick_acting [OF assms(1)])


lemma example_tick_idle:
  "on_second_tick (example_kernel example_entry 40) (example_fader \<lparr> countdown_timer := 1 \<rparr>)
     = Some (example_fader \<lparr> countdown_timer := 15 \<rparr>, [GetValue 1])"
  by (simp add: on_second_tick_def Let_def get_highest_temperature_def temperature_reads_def
        set_pwm_def example_fader_def example_kernel_def uint8_to_float_def)

lemma example_tick_full:
  "on_second_tick (example_kernel example_entry 200) (example_fader \<lparr> countdown_timer := 1 \<rparr>)
     = Some (example_fader \<lparr> countdown_timer := 60, temperaturefader_pwm_value := 255,
                             temperaturefader_state := True \<rparr>,
             [GetValue 1, SetValue 7 (State True), SetValue 7 (Value 255)])"
  by (simp add: on_second_tick_def Let_def get_highest_temperature_def temperature_reads_def
        set_pwm_def example_fader_def example_kernel_def uint8_to_float_def)

lemma example_tick_fading:
  "on_second_tick (example_kernel example_entry 100) (example_fader \<lparr> countdown_timer := 1 \<rparr>)
     = Some (example_fader \<lparr> countdown_timer := 1, temperaturefader_pwm_value := 127,
                             temperaturefader_state := True \<rparr>,
             [GetValue 1, SetValue 7 (State True), SetValue 7 (Value 127)])"
proof -
  have "on_second_tick (example_kernel example_entry 100) due_fader
     = Some (due_fader \<lparr> temperaturefader_state := True, temperaturefader_pwm_value := 127,
                          countdown_timer := temperaturefader_fading_poll due_fader \<rparr>,
             temperature_reads due_fader @ [SetValue 7 (State True), SetValue 7 (Value 127)])"
    by (rule on_second_tick_fading [where t = 100 and v = 127])
       (simp_all add: due_temperature example_fade_values,
        simp_all add: set_pwm_def Let_def fader_defs example_kernel_def uint8_to_float_def)
  then show ?thesis
    by (simp add: fader_defs temperature_reads_def)
qed


lemma example_tick_narrow:
  "on_second_tick (example_kernel example_entry 103) narrow_fader
     = Some (narrow_fader \<lparr> countdown_timer := 1, temperaturefader_pwm_value := 52,
                             temperaturefader_state := True \<rparr>,
             [GetValue 1, SetValue 7 (State True), SetValue 7 (Value 52)])"
proof -
  have "on_second_tick (example_kernel example_entry 103) narrow_fader
     = Some (narrow_fader \<lparr> temperaturefader_state := True, temperaturefader_pwm_value := 52,
                             countdown_timer := temperaturefader_fading_poll narrow_fader \<rparr>,
             temperature_reads narrow_fader @ [SetValue 7 (State True), SetValue 7 (Value 52)])"
    by (rule on_second_tick_fading [where t = 103 and v = 52])
       (simp_all add: due_temperature example_fade_values,
        simp_all add: set_pwm_def Let_def fader_defs example_kernel_def uint8_to_float_def)
  then show ?thesis
    by (simp add: fader_defs temperature_reads_def)
qed








section \<open>The state follows the value\<close>

lemma uint8_to_float_nonneg: "\<not> uint8_to_float w < 0"
proof -
  have "0 \<le> uint w"
    by simp
  then have "0 \<le> real_of_int (uint w)"
    by (simp only: of_int_0_le_iff)
  then show ?thesis
    by (simp only: uint8_to_float_def not_less)
qed

lemma state_consistent_countdown:
  "state_consistent (this \<lparr> countdown_timer := c \<rparr>) = state_consistent this"
  by (simp add: state_consistent_def)

lemma on_second_tick_consistent:
  assumes "state_consistent this" and "on_second_tick k this = Some (this', tr)"
  shows "state_consistent this'"
proof (cases "sint (countdown_timer this) \<le> 1")
  case True
  from assms(2) show ?thesis
    unfolding on_second_tick_acting [OF True]
    by (auto simp add: state_consistent_countdown set_pwm_consistent [OF assms(1)]
          split: if_splits)
next
  case False
  with assms show ?thesis
    by (auto simp add: on_second_tick_def state_consistent_countdown)
qed

text \<open>
  Claim C10. The stored state is on exactly when the stored value is above
  \<open>min_fade_pwm\<close>. This holds for the constructor's fader and for every fader
  \<open>load_config\<close> returns (value 0, state off, and an unsigned \<open>min_fade_pwm\<close>), and every
  call of \<open>set_pwm\<close> and every tick keeps it.
\<close>

theorem state_matches_value:
  "state_consistent TemperatureFader_ctor
   \<and> (load_config k0 loader modcs = (loader', Some ts) \<longrightarrow> state_consistent ts)
   \<and> (state_consistent this \<longrightarrow> state_consistent (fst (set_pwm k this v)))
   \<and> (state_consistent this \<and> on_second_tick k this = Some (this', tr) \<longrightarrow>
        state_consistent this')"
proof (intro conjI impI)
  show "state_consistent TemperatureFader_ctor"
    by (simp add: state_consistent_def TemperatureFader_ctor_def uint8_to_float_nonneg)
next
  assume "load_config k0 loader modcs = (loader', Some ts)"
  from load_config_created(1,2) [OF this] show "state_consistent ts"
    by (simp add: state_consistent_def uint8_to_float_nonneg)
next
  assume "state_consistent this"
  then show "state_consistent (fst (set_pwm k this v))"
    by (rule set_pwm_consistent)
next
  assume "state_consistent this \<and> on_second_tick k this = Some (this', tr)"
  then show "state_consistent this'"
    using on_second_tick_consistent by blast
qed

theorem state_matches_value_witness:
  "load_config (example_kernel example_entry 100) TemperatureFader_ctor 1
      = (TemperatureFader_ctor, Some example_fader)
   \<and> state_consistent example_fader
   \<and> state_consistent (fst (set_pwm (example_kernel example_entry 100) example_fader 127))
   \<and> state_consistent (example_fader \<lparr> countdown_timer := 1 \<rparr>)
   \<and> on_second_tick (example_kernel example_entry 100) (example_fader \<lparr> countdown_timer := 1 \<rparr>)
       = Some (example_fader \<lparr> countdown_timer := 1, temperaturefader_pwm_value := 127,
                               temperaturefader_state := True \<rparr>,
               [GetValue 1, SetValue 7 (State True), SetValue 7 (Value 127)])
   \<and> state_consistent (example_fader \<lparr> countdown_timer := 1, temperaturefader_pwm_value := 127,
                                        temperaturefader_state := True \<rparr>)"
proof -
  note inv = state_matches_value
    [where ?k0.0 = "example_kernel example_entry 100" and loader = TemperatureFader_ctor
       and modcs = 1 and loader' = TemperatureFader_ctor and ts = example_fader]
  have a: "state_consistent example_fader"
    using inv [THEN conjunct2, THEN conjunct1] load_config_example by blast
  have b: "state_consistent (fst (set_pwm (example_kernel example_entry 100) example_fader 127))"
    using inv [where this = example_fader, THEN conjunct2, THEN conjunct2, THEN conjunct1] a
    by blast
  have c: "state_consistent (example_fader \<lparr> countdown_timer := 1 \<rparr>)"
    using a by (simp add: state_consistent_countdown)
  have d: "state_consistent (example_fader \<lparr> countdown_timer := 1, temperaturefader_pwm_value := 127,
                                        temperaturefader_state := True \<rparr>)"
    using inv [where this = "example_fader \<lparr> countdown_timer := 1 \<rparr>"
                 and k = "example_kernel example_entry 100",
               THEN conjunct2, THEN conjunct2, THEN conjunct2]
          c example_tick_fading
    by blast
  show ?thesis
    using a b c d load_config_example example_tick_fading by (simp only: simp_thms)
qed

end
